theory Spec2Isabelle
  imports Main "HOL-Library.Word"
begin

unbundle bit_operations_syntax

section \<open>The exception layer of m1n1 (src/exception.c)\<close>

text \<open>
  A shallow embedding of \<^verbatim>\<open>exc_sync\<close>, \<^verbatim>\<open>print_regs\<close> and the lookup tables they
  use. The C code works on processor state (system registers read with \<^verbatim>\<open>mrs\<close> and
  written with \<^verbatim>\<open>msr\<close>), on the register context the vector stub saved
  (\<^verbatim>\<open>u64 *regs\<close>), on two globals (\<^verbatim>\<open>exc_guard\<close>, \<^verbatim>\<open>exc_count\<close>) and on the
  console. All of it is one record that every function takes and returns.
\<close>

subsection \<open>Machine state\<close>

type_synonym u64 = "64 word"
type_synonym u32 = "32 word"

text \<open>
  The system registers the code names. Each name is a cell of its own: the model reads
  and writes exactly the register the source line names.
\<close>

datatype sysreg =
    SPSR_EL1 | ESR_EL1 | ELR_EL1 | FAR_EL1
  | SPSR_EL2 | ESR_EL2 | ELR_EL2
  | SPSR_EL12 | ESR_EL12 | ELR_EL12 | FAR_EL12
  | MPIDR_EL1 | CurrentEL
  | SYS_IMP_APL_ASPSR_GL1
  | SYS_IMP_APL_L2C_ERR_STS | SYS_IMP_APL_L2C_ERR_ADR | SYS_IMP_APL_L2C_ERR_INF
  | SYS_IMP_APL_E_LSU_ERR_STS | SYS_IMP_APL_E_FED_ERR_STS | SYS_IMP_APL_E_MMU_ERR_STS
  | SYS_IMP_APL_LSU_ERR_STS | SYS_IMP_APL_FED_ERR_STS | SYS_IMP_APL_MMU_ERR_STS

text \<open>
  Console output is kept as the sequence of calls made: the format string and the
  arguments of each \<^verbatim>\<open>printf\<close>, the string of each \<^verbatim>\<open>uart_puts\<close>.
\<close>

datatype arg = A64 u64 | A32 u32 | AStr string

datatype out = Printf string "arg list" | Uart_puts string

text \<open>
  \<^item> \<open>regs\<close> is the memory behind the pointer \<^verbatim>\<open>u64 *regs\<close>, one quadword per index
    (C indexes a pointer, so every index is a cell; the save area is the first 32);
    \<open>regs_ptr\<close> is the pointer itself.
  \<^item> \<open>mem32\<close> is what \<^verbatim>\<open>read32\<close> returns at an address.
  \<^item> \<open>exc_guard\<close> (\<^verbatim>\<open>volatile enum exc_guard_t\<close>) and \<open>exc_count\<close>
    (\<^verbatim>\<open>volatile int\<close>) are 32-bit values.
  \<^item> \<open>in_el2\<close>, \<open>in_gl12\<close> and \<open>is_ecore\<close> are the results of the predicates of the
    same names, which utils.h and gxf.h declare and which are taken as inputs here.
  \<^item> \<open>base_addr\<close>, \<open>el0_ret\<close> and \<open>el1_ret\<close> are the addresses of the linker symbol
    \<^verbatim>\<open>_base\<close> and of the two return thunks.
\<close>

record machine =
  sysregs :: "sysreg \<Rightarrow> u64"
  regs :: "nat \<Rightarrow> u64"
  regs_ptr :: u64
  mem32 :: "u64 \<Rightarrow> u32"
  exc_guard :: u32
  exc_count :: u32
  console :: "out list"
  in_el2 :: bool
  in_gl12 :: bool
  is_ecore :: bool
  base_addr :: u64
  el0_ret :: u64
  el1_ret :: u64

definition mrs :: "sysreg \<Rightarrow> machine \<Rightarrow> u64" where
  "mrs r s = sysregs s r"

definition msr :: "sysreg \<Rightarrow> u64 \<Rightarrow> machine \<Rightarrow> machine" where
  "msr r v s = s\<lparr>sysregs := (sysregs s)(r := v)\<rparr>"

definition read32 :: "u64 \<Rightarrow> machine \<Rightarrow> u32" where
  "read32 a s = mem32 s a"

definition printf :: "string \<Rightarrow> arg list \<Rightarrow> machine \<Rightarrow> machine" where
  "printf fmt as s = s\<lparr>console := console s @ [Printf fmt as]\<rparr>"

definition uart_puts :: "string \<Rightarrow> machine \<Rightarrow> machine" where
  "uart_puts str s = s\<lparr>console := console s @ [Uart_puts str]\<rparr>"

text \<open>
  \<^verbatim>\<open>sysop("isb")\<close> and \<^verbatim>\<open>sysop("dsb sy")\<close> are barriers: they order the accesses
  around them and change none of the state above.
\<close>

definition sysop :: "string \<Rightarrow> machine \<Rightarrow> machine" where
  "sysop insn s = s"

subsection \<open>The guard encoding\<close>

text \<open>
  Modelled from the spec: \<^verbatim>\<open>enum exc_guard_t\<close> is declared in exception.h, which is
  not among the sources. The spec describes the guard as a mode, one of
  OFF | SKIP | MARK | RETURN with OFF the default, combined with an independent SILENT
  flag. The modes are numbered in that order from 0, as a C enum numbers its constants,
  inside the byte that \<^verbatim>\<open>GUARD_TYPE_MASK\<close> selects, and SILENT is the first bit above
  the mask. The proofs below use of this encoding only that the four mode values are
  distinct and unchanged by the mask, that \<^verbatim>\<open>GUARD_OFF\<close> is 0 and that
  \<^verbatim>\<open>GUARD_SILENT\<close> lies outside the mask.
\<close>

definition GUARD_OFF :: u32 where "GUARD_OFF = 0"
definition GUARD_SKIP :: u32 where "GUARD_SKIP = 1"
definition GUARD_MARK :: u32 where "GUARD_MARK = 2"
definition GUARD_RETURN :: u32 where "GUARD_RETURN = 3"
definition GUARD_TYPE_MASK :: u32 where "GUARD_TYPE_MASK = 0xff"
definition GUARD_SILENT :: u32 where "GUARD_SILENT = 0x100"

subsection \<open>Label tables\<close>

text \<open>
  A C array with designated initialisers: the entries named get their string, a later
  designator for the same index wins, every other entry is a null pointer.
\<close>

definition designated :: "nat \<Rightarrow> (nat \<times> string) list \<Rightarrow> string option list" where
  "designated n inits = foldl (\<lambda>t (i, v). t[i := Some v]) (replicate n None) inits"

definition m_table :: "string option list" where
  "m_table = designated 0x10
     [(0x00, ''EL0t''),
      (0x04, ''EL1t''),
      (0x05, ''EL1h''),
      (0x08, ''EL2t''),
      (0x09, ''EL2h'')]"

definition gl_m_table :: "string option list" where
  "gl_m_table = designated 0x10
     [(0x00, ''GL0t''),
      (0x04, ''GL1t''),
      (0x05, ''GL1h''),
      (0x08, ''GL2t''),
      (0x09, ''GL2h'')]"

definition ec_table :: "string option list" where
  "ec_table = designated 0x40
     [(0x00, ''unknown''),
      (0x01, ''wf*''),
      (0x03, ''c15 mcr/mrc''),
      (0x04, ''c15 mcrr/mrrc''),
      (0x05, ''c14 mcr/mrc''),
      (0x06, ''ldc/stc''),
      (0x07, ''FP off''),
      (0x08, ''VMRS access''),
      (0x09, ''PAC off''),
      (0x0a, ''ld/st64b''),
      (0x0c, ''c14 mrrc''),
      (0x0d, ''branch target''),
      (0x0e, ''illegal state''),
      (0x11, ''svc in a32''),
      (0x12, ''hvc in a32''),
      (0x13, ''smc in a32''),
      (0x15, ''svc in a64''),
      (0x16, ''hvc in a64''),
      (0x17, ''smc in a64''),
      (0x18, ''other mcr/mrc/sys''),
      (0x19, ''SVE off''),
      (0x1a, ''eret''),
      (0x1c, ''PAC failure''),
      (0x20, ''instruction abort (lower)''),
      (0x21, ''instruction abort (current)''),
      (0x22, ''pc misaligned''),
      (0x24, ''data abort (lower)''),
      (0x25, ''data abort (current)''),
      (0x26, ''sp misaligned''),
      (0x28, ''FP exception (a32)''),
      (0x2c, ''FP exception (a64)''),
      (0x2f, ''SError''),
      (0x30, ''BP (lower)''),
      (0x31, ''BP (current)''),
      (0x32, ''step (lower)''),
      (0x33, ''step (current)''),
      (0x34, ''watchpoint (lower)''),
      (0x35, ''watchpoint (current)''),
      (0x38, ''bkpt (a32)''),
      (0x3a, ''vector catch (a32)''),
      (0x3c, ''brk (a64)'')]"

text \<open>
  The exception class of a syndrome value, \<^verbatim>\<open>(esr >> 26) & 0x3f\<close>, and the label
  lookup \<^verbatim>\<open>ec_table[(esr >> 26) & 0x3f]\<close> of \<^verbatim>\<open>print_regs\<close>.
\<close>

definition esr_ec :: "u64 \<Rightarrow> u64" where
  "esr_ec esr = drop_bit 26 esr AND 0x3f"

definition ec_desc :: "u64 \<Rightarrow> string option" where
  "ec_desc esr = ec_table ! unat (esr_ec esr)"

subsection \<open>Diagnostic decoder\<close>

definition get_exception_source :: "bool \<Rightarrow> machine \<Rightarrow> string" where
  "get_exception_source el12 s =
     (let spsr = (if el12 then mrs SPSR_EL12 s else mrs SPSR_EL1 s);
          aspsr = (if in_gl12 s then mrs SYS_IMP_APL_ASPSR_GL1 s else 0);
          m_desc = (if aspsr AND 1 \<noteq> 0 then gl_m_table ! unat (spsr AND 0xf)
                    else m_table ! unat (spsr AND 0xf))
      in case m_desc of None \<Rightarrow> ''?'' | Some d \<Rightarrow> d)"

definition get_exception_level :: "machine \<Rightarrow> string" where
  "get_exception_level s =
     (let lvl = mrs CurrentEL s
      in if in_gl12 s then
           (if lvl = 0x04 then ''GL1'' else if lvl = 0x08 then ''GL2'' else ''?'')
         else
           (if lvl = 0x04 then ''EL1'' else if lvl = 0x08 then ''EL2'' else ''?''))"

subsection \<open>Fault reporter\<close>

definition print_regs :: "bool \<Rightarrow> machine \<Rightarrow> machine" where
  "print_regs el12 s0 =
     (let sp = regs_ptr s0 + 256;
          spsr = (if el12 then mrs SPSR_EL12 s0 else mrs SPSR_EL1 s0);
          s = printf ''Exception taken from %s\<newline>'' [AStr (get_exception_source el12 s0)] s0;
          s = printf ''Running in %s\<newline>'' [AStr (get_exception_level s)] s;
          s = printf ''MPIDR: 0x%lx\<newline>'' [A64 (mrs MPIDR_EL1 s)] s;
          s = printf ''Registers: (@%p)\<newline>'' [A64 (regs_ptr s)] s;
          s = printf ''  x0-x3: %016lx %016lx %016lx %016lx\<newline>''
                [A64 (regs s 0), A64 (regs s 1), A64 (regs s 2), A64 (regs s 3)] s;
          s = printf ''  x4-x7: %016lx %016lx %016lx %016lx\<newline>''
                [A64 (regs s 4), A64 (regs s 5), A64 (regs s 6), A64 (regs s 7)] s;
          s = printf '' x8-x11: %016lx %016lx %016lx %016lx\<newline>''
                [A64 (regs s 8), A64 (regs s 9), A64 (regs s 10), A64 (regs s 11)] s;
          s = printf ''x12-x15: %016lx %016lx %016lx %016lx\<newline>''
                [A64 (regs s 12), A64 (regs s 13), A64 (regs s 14), A64 (regs s 15)] s;
          s = printf ''x16-x19: %016lx %016lx %016lx %016lx\<newline>''
                [A64 (regs s 16), A64 (regs s 17), A64 (regs s 18), A64 (regs s 19)] s;
          s = printf ''x20-x23: %016lx %016lx %016lx %016lx\<newline>''
                [A64 (regs s 20), A64 (regs s 21), A64 (regs s 22), A64 (regs s 23)] s;
          s = printf ''x24-x27: %016lx %016lx %016lx %016lx\<newline>''
                [A64 (regs s 24), A64 (regs s 25), A64 (regs s 26), A64 (regs s 27)] s;
          s = printf ''x28-x30: %016lx %016lx %016lx\<newline>''
                [A64 (regs s 28), A64 (regs s 29), A64 (regs s 30)] s;
          elr = (if el12 then mrs ELR_EL12 s else mrs ELR_EL1 s);
          esr = (if el12 then mrs ESR_EL12 s else mrs ESR_EL1 s);
          s = printf ''PC:       0x%lx (rel: 0x%lx)\<newline>'' [A64 elr, A64 (elr - base_addr s)] s;
          s = printf ''SP:       0x%lx\<newline>'' [A64 sp] s;
          s = printf ''SPSR_EL1: 0x%lx\<newline>'' [A64 spsr] s;
          s = (if in_gl12 s
               then printf ''ASPSR:    0x%lx\<newline>'' [A64 (mrs SYS_IMP_APL_ASPSR_GL1 s)] s
               else s);
          s = printf ''FAR_EL1:  0x%lx\<newline>''
                [A64 (if el12 then mrs FAR_EL12 s else mrs FAR_EL1 s)] s;
          s = printf ''ESR_EL1:  0x%lx (%s)\<newline>''
                [A64 esr, AStr (case ec_desc esr of Some d \<Rightarrow> d | None \<Rightarrow> ''?'')] s;
          l2c_err_sts = mrs SYS_IMP_APL_L2C_ERR_STS s;
          s = printf ''L2C_ERR_STS: 0x%lx\<newline>'' [A64 l2c_err_sts] s;
          s = printf ''L2C_ERR_ADR: 0x%lx\<newline>'' [A64 (mrs SYS_IMP_APL_L2C_ERR_ADR s)] s;
          s = printf ''L2C_ERR_INF: 0x%lx\<newline>'' [A64 (mrs SYS_IMP_APL_L2C_ERR_INF s)] s;
          s = msr SYS_IMP_APL_L2C_ERR_STS l2c_err_sts s
      in if is_ecore s then
           (let s = printf ''E_LSU_ERR_STS: 0x%lx\<newline>'' [A64 (mrs SYS_IMP_APL_E_LSU_ERR_STS s)] s;
                s = printf ''E_FED_ERR_STS: 0x%lx\<newline>'' [A64 (mrs SYS_IMP_APL_E_FED_ERR_STS s)] s
            in printf ''E_MMU_ERR_STS: 0x%lx\<newline>'' [A64 (mrs SYS_IMP_APL_E_MMU_ERR_STS s)] s)
         else
           (let s = printf ''LSU_ERR_STS: 0x%lx\<newline>'' [A64 (mrs SYS_IMP_APL_LSU_ERR_STS s)] s;
                s = printf ''FED_ERR_STS: 0x%lx\<newline>'' [A64 (mrs SYS_IMP_APL_FED_ERR_STS s)] s
            in printf ''MMU_ERR_STS: 0x%lx\<newline>'' [A64 (mrs SYS_IMP_APL_MMU_ERR_STS s)] s))"

subsection \<open>The synchronous exception handler\<close>

text \<open>
  \<^verbatim>\<open>exc_sync\<close> either returns to the vector stub or calls \<^verbatim>\<open>flush_and_reboot\<close>, which
  does not come back. The first part of the function (up to the barriers) can return at once or fall
  through with the local \<^verbatim>\<open>el12\<close>; the second part is the guard switch and the
  write-back of the resolved return address.
\<close>

datatype relay = Return_now machine | Fall_through machine bool

datatype outcome = Returned machine | Rebooted machine

definition flush_and_reboot :: "machine \<Rightarrow> outcome" where
  "flush_and_reboot s = Rebooted s"

definition exc_sync_relay :: "machine \<Rightarrow> relay" where
  "exc_sync_relay s =
     (let spsr = mrs SPSR_EL1 s;
          esr = mrs ESR_EL1 s
      in if spsr AND 0xf = 0 \<and> drop_bit 26 esr AND 0x3f = 0x3c then
           Return_now (msr ELR_EL1 (el0_ret s) (msr SPSR_EL1 0x09 s))
         else if in_el2 s \<and> \<not> in_gl12 s \<and> spsr AND 0xf = 5
                 \<and> drop_bit 26 esr AND 0x3f = 0x16 then
           (let imm = (ucast (mrs ESR_EL2 s AND 0xffff) :: u32)
            in if imm = 0 then
                 Return_now (msr ELR_EL2 (el1_ret s) (msr SPSR_EL2 0x09 s))
               else if 0x10 \<le> imm \<and> imm \<le> 0x1f then
                 (let s = (if exc_guard s AND GUARD_SILENT = 0
                           then printf ''EL1 Exception: 0x%x\<newline>'' [A32 imm] s else s);
                      s = msr SPSR_EL2 (mrs SPSR_EL12 s) s;
                      s = msr ELR_EL2 (mrs ELR_EL12 s) s
                  in Fall_through s True)
               else
                 Fall_through (printf ''Unknown HVC: 0x%x\<newline>'' [A32 imm] s) False)
         else
           Fall_through
             (if exc_guard s AND GUARD_SILENT = 0 then uart_puts ''Exception: SYNC'' s else s)
             False)"

text \<open>Lines 271 to 278: count the fault, report and commit the resolved address.\<close>

definition exc_sync_recover :: "u64 \<Rightarrow> machine \<Rightarrow> outcome" where
  "exc_sync_recover elr s =
     (let s = s\<lparr>exc_count := exc_count s + 1\<rparr>;
          s = (if exc_guard s AND GUARD_SILENT = 0
               then printf ''Recovering from exception (ELR=0x%lx)\<newline>'' [A64 elr] s else s);
          s = msr ELR_EL1 elr s;
          s = sysop ''isb'' s
      in Returned (sysop ''dsb sy'' s))"

text \<open>Lines 245 to 269: the barriers, the report and the guard switch.\<close>

definition exc_sync_guard :: "machine \<Rightarrow> bool \<Rightarrow> outcome" where
  "exc_sync_guard s el12 =
     (let s = sysop ''isb'' s;
          s = sysop ''dsb sy'' s;
          s = (if exc_guard s AND GUARD_SILENT = 0 then print_regs el12 s else s);
          ty = exc_guard s AND GUARD_TYPE_MASK
      in if ty = GUARD_SKIP then
           exc_sync_recover (mrs ELR_EL1 s + 4) s
         else if ty = GUARD_MARK then
           (let insn = read32 (mrs ELR_EL1 s) s;
                s = s\<lparr>regs := (regs s)(unat (insn AND 0x1f) := 0xacce5515abad1dea)\<rparr>
            in exc_sync_recover (mrs ELR_EL1 s + 4) s)
         else if ty = GUARD_RETURN then
           (let s = s\<lparr>regs := (regs s)(0 := 0xacce5515abad1dea)\<rparr>;
                elr = regs s 30;
                s = s\<lparr>exc_guard := GUARD_OFF\<rparr>
            in exc_sync_recover elr s)
         else
           flush_and_reboot s)"

definition exc_sync :: "machine \<Rightarrow> outcome" where
  "exc_sync s =
     (case exc_sync_relay s of
        Return_now s' \<Rightarrow> Returned s'
      | Fall_through s' el12 \<Rightarrow> exc_sync_guard s' el12)"

text \<open>The state in which a call ended, whichever way it ended.\<close>

definition outcome_state :: "outcome \<Rightarrow> machine" where
  "outcome_state r = (case r of Returned t \<Rightarrow> t | Rebooted t \<Rightarrow> t)"

subsection \<open>Faults that reach the guard engine, and runs of faults\<close>

text \<open>
  A synchronous exception reaches the guard switch when the first part of \<^verbatim>\<open>exc_sync\<close>
  does not return at once.
\<close>

definition reaches_guard :: "machine \<Rightarrow> bool" where
  "reaches_guard s =
     (case exc_sync_relay s of Fall_through s' el12 \<Rightarrow> True | Return_now s' \<Rightarrow> False)"


definition final_state :: "machine \<Rightarrow> (machine \<times> machine) list \<Rightarrow> machine" where
  "final_state s tr = last (s # map snd tr)"

subsection \<open>Concrete machines\<close>

text \<open>
  A machine at EL2 outside the guest context, every register and memory word zero, the
  guard off and nothing printed yet; the scenarios below change what they need.
\<close>

definition machine0 :: machine where
  "machine0 =
     \<lparr>sysregs = (\<lambda>r. 0), regs = (\<lambda>i. 0), regs_ptr = 0x8000, mem32 = (\<lambda>a. 0),
      exc_guard = GUARD_OFF, exc_count = 0, console = [],
      in_el2 = True, in_gl12 = False, is_ecore = False,
      base_addr = 0, el0_ret = 0x1000, el1_ret = 0x2000\<rparr>"


text \<open>EL0 code executed \<^verbatim>\<open>brk\<close> (class 0x3c) with the guard off.\<close>

definition el0_brk_machine :: machine where
  "el0_brk_machine =
     machine0\<lparr>sysregs := (\<lambda>r. 0)(SPSR_EL1 := 0x3c0, ESR_EL1 := 0xf2000000,
                 ELR_EL1 := 0x5000)\<rparr>"

text \<open>
  A data abort (class 0x25) taken from EL1h at address 0x6000, where the instruction word
  \<open>insn\<close> stands; the saved link register (slot 30) holds 0x7000 and the guard is \<open>g\<close>.
\<close>

definition fault_machine :: "u32 \<Rightarrow> u32 \<Rightarrow> machine" where
  "fault_machine g insn =
     machine0\<lparr>sysregs := (\<lambda>r. 0)(SPSR_EL1 := 0x3c5, ESR_EL1 := 0x96000045, ELR_EL1 := 0x6000),
               regs := (\<lambda>i. 0)(30 := 0x7000),
               mem32 := (\<lambda>a. 0)(0x6000 := insn),
               exc_guard := g\<rparr>"





section \<open>Basic facts\<close>

lemma printf_frame [simp]:
  "sysregs (printf f a s) = sysregs s"
  "regs (printf f a s) = regs s"
  "regs_ptr (printf f a s) = regs_ptr s"
  "mem32 (printf f a s) = mem32 s"
  "exc_guard (printf f a s) = exc_guard s"
  "exc_count (printf f a s) = exc_count s"
  "in_el2 (printf f a s) = in_el2 s"
  "in_gl12 (printf f a s) = in_gl12 s"
  "is_ecore (printf f a s) = is_ecore s"
  "base_addr (printf f a s) = base_addr s"
  "el0_ret (printf f a s) = el0_ret s"
  "el1_ret (printf f a s) = el1_ret s"
  "console (printf f a s) = console s @ [Printf f a]"
  by (simp_all add: printf_def)

lemma uart_puts_frame [simp]:
  "sysregs (uart_puts str s) = sysregs s"
  "regs (uart_puts str s) = regs s"
  "mem32 (uart_puts str s) = mem32 s"
  "exc_guard (uart_puts str s) = exc_guard s"
  "exc_count (uart_puts str s) = exc_count s"
  "console (uart_puts str s) = console s @ [Uart_puts str]"
  by (simp_all add: uart_puts_def)

lemma msr_frame [simp]:
  "sysregs (msr r v s) = (sysregs s)(r := v)"
  "regs (msr r v s) = regs s"
  "regs_ptr (msr r v s) = regs_ptr s"
  "mem32 (msr r v s) = mem32 s"
  "exc_guard (msr r v s) = exc_guard s"
  "exc_count (msr r v s) = exc_count s"
  "in_el2 (msr r v s) = in_el2 s"
  "in_gl12 (msr r v s) = in_gl12 s"
  "is_ecore (msr r v s) = is_ecore s"
  "base_addr (msr r v s) = base_addr s"
  "el0_ret (msr r v s) = el0_ret s"
  "el1_ret (msr r v s) = el1_ret s"
  "console (msr r v s) = console s"
  by (simp_all add: msr_def)

lemma sysop_id [simp]: "sysop i s = s"
  by (simp add: sysop_def)

text \<open>
  The reporter only prints: its one register write stores back the value just read.
  The weak congruence rule makes the simplifier finish each step of the function before
  it enters the next.
\<close>

lemma print_regs_frame [simp]:
  "sysregs (print_regs e s) = sysregs s"
  "regs (print_regs e s) = regs s"
  "exc_guard (print_regs e s) = exc_guard s"
  "exc_count (print_regs e s) = exc_count s"
  "mem32 (print_regs e s) = mem32 s"
  unfolding print_regs_def
  by (simp_all add: Let_def mrs_def cong: let_weak_cong)

text \<open>What the first part leaves alone when it falls through.\<close>

lemma relay_fall_through_frame:
  assumes "exc_sync_relay s = Fall_through s1 e"
  shows "regs s1 = regs s" "exc_guard s1 = exc_guard s" "exc_count s1 = exc_count s"
    "mem32 s1 = mem32 s" "sysregs s1 ELR_EL1 = sysregs s ELR_EL1"
  using assms
  by (auto simp: exc_sync_relay_def Let_def mrs_def split: if_splits)

lemma reaches_guardE:
  assumes "reaches_guard s"
  obtains s1 e where "exc_sync_relay s = Fall_through s1 e" "exc_sync s = exc_sync_guard s1 e"
  using assms
  by (auto simp: reaches_guard_def exc_sync_def split: relay.splits)



lemma guard_RETURN:
  assumes "exc_guard s AND GUARD_TYPE_MASK = GUARD_RETURN"
  shows "\<exists>t. exc_sync_guard s e = Returned t
     \<and> exc_count t = exc_count s + 1 \<and> exc_guard t = GUARD_OFF
     \<and> regs t = (regs s)(0 := 0xacce5515abad1dea)
     \<and> sysregs t = (sysregs s)(ELR_EL1 := regs s 30)"
  using assms
  by (simp add: exc_sync_guard_def exc_sync_recover_def Let_def mrs_def
      GUARD_SKIP_def GUARD_MARK_def GUARD_RETURN_def)

lemma guard_other:
  assumes "exc_guard s AND GUARD_TYPE_MASK \<noteq> GUARD_SKIP"
    "exc_guard s AND GUARD_TYPE_MASK \<noteq> GUARD_MARK"
    "exc_guard s AND GUARD_TYPE_MASK \<noteq> GUARD_RETURN"
  shows "exc_sync_guard s e =
     Rebooted (if exc_guard s AND GUARD_SILENT = 0 then print_regs e s else s)"
  using assms
  by (simp add: exc_sync_guard_def Let_def flush_and_reboot_def)





lemma final_state_Nil [simp]: "final_state s [] = s"
  by (simp add: final_state_def)

lemma final_state_Cons [simp]: "final_state s ((a, b) # tr) = final_state b tr"
  by (simp add: final_state_def)














text \<open>
  A fault that is not a hypercall and reaches the guard switch, with SILENT set: nothing
  is printed when the mode is SKIP or MARK, and exactly the recovery line is printed when
  the mode is RETURN.
\<close>

lemma not_hvc_relay:
  assumes "\<not> (in_el2 s \<and> \<not> in_gl12 s \<and> mrs SPSR_EL1 s AND 0xf = 5
               \<and> drop_bit 26 (mrs ESR_EL1 s) AND 0x3f = 0x16)"
    and "reaches_guard s"
  shows "exc_sync s = exc_sync_guard
           (if exc_guard s AND GUARD_SILENT = 0 then uart_puts ''Exception: SYNC'' s else s) False"
  using assms
  by (auto simp add: exc_sync_def reaches_guard_def exc_sync_relay_def Let_def mrs_def
      split: if_splits)

lemma silent_skip_mark_quiet:
  assumes "\<not> (in_el2 s \<and> \<not> in_gl12 s \<and> mrs SPSR_EL1 s AND 0xf = 5
               \<and> drop_bit 26 (mrs ESR_EL1 s) AND 0x3f = 0x16)"
    and "reaches_guard s"
    and "exc_guard s AND GUARD_SILENT \<noteq> 0"
    and "exc_guard s AND GUARD_TYPE_MASK = GUARD_SKIP
         \<or> exc_guard s AND GUARD_TYPE_MASK = GUARD_MARK"
  shows "\<exists>t. exc_sync s = Returned t \<and> console t = console s"
  using assms(3,4) unfolding not_hvc_relay [OF assms(1,2)]
  by (auto simp add: exc_sync_guard_def exc_sync_recover_def Let_def
      GUARD_SKIP_def GUARD_MARK_def)

lemma silent_return_prints:
  assumes "\<not> (in_el2 s \<and> \<not> in_gl12 s \<and> mrs SPSR_EL1 s AND 0xf = 5
               \<and> drop_bit 26 (mrs ESR_EL1 s) AND 0x3f = 0x16)"
    and "reaches_guard s"
    and "exc_guard s AND GUARD_SILENT \<noteq> 0"
    and "exc_guard s AND GUARD_TYPE_MASK = GUARD_RETURN"
  shows "\<exists>t. exc_sync s = Returned t
     \<and> console t = console s
          @ [Printf ''Recovering from exception (ELR=0x%lx)\<newline>'' [A64 (regs s 30)]]"
  using assms(3,4) unfolding not_hvc_relay [OF assms(1,2)]
  by (auto simp add: exc_sync_guard_def exc_sync_recover_def Let_def
      GUARD_SKIP_def GUARD_MARK_def GUARD_RETURN_def GUARD_OFF_def)

section \<open>The hypervisor trap relay\<close>



text \<open>
  Claim C6. Saved status nibble 0 (EL0t) and class 0x3c (brk): \<^verbatim>\<open>exc_sync\<close> sets
  SPSR_EL1 to 0x09 and ELR_EL1 to the address of \<^verbatim>\<open>el0_ret\<close> and returns. Nothing else
  of the state differs: nothing is printed, the guard, the counter and the register
  context are as they were. No condition on the guard or on the level is asked.
\<close>

theorem C6_el0_clean_return:
  assumes "mrs SPSR_EL1 s AND 0xf = 0"
    and "drop_bit 26 (mrs ESR_EL1 s) AND 0x3f = 0x3c"
  shows "exc_sync s = Returned (s\<lparr>sysregs := (sysregs s)(SPSR_EL1 := 0x09, ELR_EL1 := el0_ret s)\<rparr>)
         \<and> \<not> reaches_guard s"
  using assms
  by (simp add: exc_sync_def reaches_guard_def exc_sync_relay_def Let_def mrs_def msr_def)

theorem C6_el0_clean_return_witness:
  "mrs SPSR_EL1 el0_brk_machine AND 0xf = 0
   \<and> drop_bit 26 (mrs ESR_EL1 el0_brk_machine) AND 0x3f = 0x3c
   \<and> exc_guard el0_brk_machine AND GUARD_TYPE_MASK = GUARD_OFF
   \<and> exc_sync el0_brk_machine =
       Returned (el0_brk_machine\<lparr>sysregs := (sysregs el0_brk_machine)(SPSR_EL1 := 0x09, ELR_EL1 := 0x1000)\<rparr>)"
  using C6_el0_clean_return [of el0_brk_machine]
  by (simp add: el0_brk_machine_def machine0_def mrs_def GUARD_OFF_def)








section \<open>The guard engine\<close>

text \<open>
  Claim C3. A fault that reaches the guard switch while the mode is RETURN: the handler
  returns, slot 0 of the register context holds 0xacce5515abad1dea (no other slot
  changes), ELR_EL1 holds the link register saved in slot 30, \<^verbatim>\<open>exc_count\<close> is one
  more and \<^verbatim>\<open>exc_guard\<close> is \<^verbatim>\<open>GUARD_OFF\<close>. With the guard left like that, the next
  fault that reaches the switch ends in \<^verbatim>\<open>flush_and_reboot\<close>.
\<close>

theorem C3_guard_return_one_shot:
  assumes "reaches_guard s"
    and "exc_guard s AND GUARD_TYPE_MASK = GUARD_RETURN"
  shows "\<exists>t. exc_sync s = Returned t
           \<and> regs t 0 = 0xacce5515abad1dea
           \<and> regs t = (regs s)(0 := 0xacce5515abad1dea)
           \<and> mrs ELR_EL1 t = regs s 30
           \<and> exc_count t = exc_count s + 1
           \<and> exc_guard t = GUARD_OFF
           \<and> (\<forall>u. exc_guard u = exc_guard t \<and> reaches_guard u \<longrightarrow> (\<exists>r. exc_sync u = Rebooted r))"
proof -
  from assms(1) obtain s1 e where
    rel: "exc_sync_relay s = Fall_through s1 e" and run: "exc_sync s = exc_sync_guard s1 e"
    by (rule reaches_guardE)
  note fr = relay_fall_through_frame [OF rel]
  from assms(2) fr have "exc_guard s1 AND GUARD_TYPE_MASK = GUARD_RETURN"
    by simp
  from guard_RETURN [OF this, of e] obtain t where
    t: "exc_sync_guard s1 e = Returned t" "exc_count t = exc_count s1 + 1"
      "exc_guard t = GUARD_OFF" "regs t = (regs s1)(0 := 0xacce5515abad1dea)"
      "sysregs t = (sysregs s1)(ELR_EL1 := regs s1 30)"
    by blast
  have second: "\<exists>r. exc_sync u = Rebooted r"
    if u: "exc_guard u = exc_guard t \<and> reaches_guard u" for u
  proof -
    from u obtain u1 e' where
      rel': "exc_sync_relay u = Fall_through u1 e'" and run': "exc_sync u = exc_sync_guard u1 e'"
      by (blast elim: reaches_guardE)
    from relay_fall_through_frame(2) [OF rel'] u t(3) have "exc_guard u1 = GUARD_OFF"
      by simp
    then have "exc_sync_guard u1 e' = Rebooted (print_regs e' u1)"
      by (simp add: guard_other GUARD_OFF_def GUARD_SKIP_def GUARD_MARK_def GUARD_RETURN_def)
    with run' show ?thesis by simp
  qed
  from t fr run second show ?thesis
    by (simp add: mrs_def)
qed

theorem C3_guard_return_witness:
  "reaches_guard (fault_machine GUARD_RETURN 0xf9400023)
   \<and> exc_guard (fault_machine GUARD_RETURN 0xf9400023) AND GUARD_TYPE_MASK = GUARD_RETURN
   \<and> (\<exists>t. exc_sync (fault_machine GUARD_RETURN 0xf9400023) = Returned t
        \<and> regs t 0 = 0xacce5515abad1dea \<and> mrs ELR_EL1 t = 0x7000
        \<and> exc_count t = 1 \<and> exc_guard t = GUARD_OFF)"
proof -
  have h1: "reaches_guard (fault_machine GUARD_RETURN 0xf9400023)"
    by (simp add: reaches_guard_def exc_sync_relay_def fault_machine_def machine0_def mrs_def Let_def)
  have h2: "exc_guard (fault_machine GUARD_RETURN 0xf9400023) AND GUARD_TYPE_MASK = GUARD_RETURN"
    by (simp add: fault_machine_def machine0_def GUARD_RETURN_def GUARD_TYPE_MASK_def)
  from C3_guard_return_one_shot [OF h1 h2] h1 h2 show ?thesis
    by (auto simp add: fault_machine_def machine0_def)
qed








text \<open>
  Claim C7. The claim says that with SILENT set a guarded fault prints nothing in any
  mode. The banner and the register report are skipped, but with the mode RETURN the
  handler stores \<^verbatim>\<open>GUARD_OFF\<close> into \<^verbatim>\<open>exc_guard\<close> before it tests the flag for the
  recovery line, so that line is printed: on a machine with the guard RETURN and SILENT
  and an empty console, the console holds the recovery line after the call.
\<close>

theorem C7_silent_return_prints:
  "exc_guard (fault_machine (GUARD_RETURN OR GUARD_SILENT) 0xf9400023) AND GUARD_SILENT = GUARD_SILENT
   \<and> exc_guard (fault_machine (GUARD_RETURN OR GUARD_SILENT) 0xf9400023) AND GUARD_TYPE_MASK
       = GUARD_RETURN
   \<and> console (fault_machine (GUARD_RETURN OR GUARD_SILENT) 0xf9400023) = []
   \<and> console (outcome_state (exc_sync (fault_machine (GUARD_RETURN OR GUARD_SILENT) 0xf9400023)))
       = [Printf ''Recovering from exception (ELR=0x%lx)\<newline>'' [A64 0x7000]]"
  by (simp add: outcome_state_def exc_sync_def exc_sync_relay_def exc_sync_guard_def
      exc_sync_recover_def Let_def fault_machine_def machine0_def mrs_def
      GUARD_SKIP_def GUARD_MARK_def GUARD_RETURN_def GUARD_OFF_def GUARD_SILENT_def
      GUARD_TYPE_MASK_def)

section \<open>The fault reporter\<close>


end
